theory Spec2Isabelle
  imports Complex_Main "HOL-Library.Multiset"
begin

section \<open>Inventory forecast pipeline: forecaster.py\<close>

text \<open>
  The embedding follows \<^verbatim>\<open>src/ai-service/forecaster.py\<close>, \<^verbatim>\<open>app.py\<close> and
  \<^verbatim>\<open>db_connector.py\<close>. Python floats (the \<^verbatim>\<open>float64\<close> columns of the data
  frames) are modelled as \<^typ>\<open>real\<close>: rounding error, infinities and NaN values
  inside a column are outside the model. The one NaN the code computes by itself, the
  mean of an empty column, is modelled as \<open>None\<close>. A calendar day is the number of
  days since the epoch, a timestamp the number of seconds since the epoch.
\<close>

subsection \<open>Forecast rows and predictions\<close>

text \<open>One row of the model's output frame: columns \<^verbatim>\<open>ds, yhat, yhat_lower, yhat_upper\<close>.\<close>

record forecast_row =
  ds :: int
  yhat :: real
  yhat_lower :: real
  yhat_upper :: real

datatype trend_label = Uptrend | Downtrend | Stable

datatype confidence_label = High | Low

text \<open>
  The dictionary returned with \<^verbatim>\<open>"status": "success"\<close>. The code returns
  \<^verbatim>\<open>stock_out_date\<close> as the day formatted with \<^verbatim>\<open>strftime("%Y-%m-%d")\<close>, a
  non-empty string; the model keeps the day itself.
\<close>

record prediction =
  stock_out_date :: "int option"
  predicted_monthly_demand :: int
  trend :: trend_label
  confidence :: confidence_label
  forecast_data :: "forecast_row list"

text \<open>The three dictionaries \<^verbatim>\<open>generate_forecast\<close> can return.\<close>

datatype forecast_result =
    Success prediction
  | Insufficient_data
  | Error string

subsection \<open>Pandas and Python primitives used by the analysis\<close>

text \<open>\<^verbatim>\<open>frame.head(n)\<close> and \<^verbatim>\<open>frame.tail(n)\<close>: a shorter frame is returned whole.\<close>

definition head_rows :: "nat \<Rightarrow> 'a list \<Rightarrow> 'a list" where
  "head_rows n xs = take n xs"

definition tail_rows :: "nat \<Rightarrow> 'a list \<Rightarrow> 'a list" where
  "tail_rows n xs = drop (length xs - n) xs"

text \<open>\<^verbatim>\<open>Series.mean()\<close>: NaN (here \<open>None\<close>) on an empty column.\<close>

definition mean :: "real list \<Rightarrow> real option" where
  "mean xs = (if xs = [] then None else Some (sum_list xs / real (length xs)))"

text \<open>Comparisons with a possibly-NaN operand: any comparison with NaN is false.\<close>

definition nan_less :: "real option \<Rightarrow> real option \<Rightarrow> bool" where
  "nan_less a b = (case (a, b) of (Some x, Some y) \<Rightarrow> x < y | _ \<Rightarrow> False)"

definition nan_times :: "real option \<Rightarrow> real \<Rightarrow> real option" where
  "nan_times a c = map_option (\<lambda>x. x * c) a"

text \<open>Python's \<^verbatim>\<open>int(x)\<close> on a float: truncation toward zero.\<close>

definition py_int :: "real \<Rightarrow> int" where
  "py_int x = (if 0 \<le> x then \<lfloor>x\<rfloor> else \<lceil>x\<rceil>)"

subsection \<open>Analysis of the prediction window (generate\_forecast, steps 4 to 6)\<close>

text \<open>Line 76: \<^verbatim>\<open>future_data['yhat'].clip(lower=0).sum()\<close>.\<close>

definition predicted_demand :: "forecast_row list \<Rightarrow> real" where
  "predicted_demand future_data = sum_list (map (\<lambda>row. max 0 (yhat row)) future_data)"

text \<open>
  Lines 79 to 88: the loop over \<^verbatim>\<open>future_data.iterrows()\<close>. The first argument is
  \<^verbatim>\<open>running_stock\<close> on entry to the iteration; the result is \<^verbatim>\<open>stock_out_date\<close>,
  which stays \<open>None\<close> when the loop ends without \<^verbatim>\<open>break\<close>.
\<close>

fun depletion_loop :: "real \<Rightarrow> forecast_row list \<Rightarrow> int option" where
  "depletion_loop running_stock [] = None"
| "depletion_loop running_stock (row # rows) =
     (let daily_sales = max 0 (yhat row);
          running_stock' = running_stock - daily_sales
      in if running_stock' \<le> 0 then Some (ds row)
         else depletion_loop running_stock' rows)"

text \<open>Lines 92 to 100.\<close>

definition start_sales :: "forecast_row list \<Rightarrow> real option" where
  "start_sales future_data = mean (map yhat (head_rows 5 future_data))"

definition end_sales :: "forecast_row list \<Rightarrow> real option" where
  "end_sales future_data = mean (map yhat (tail_rows 5 future_data))"

definition classify_trend :: "real option \<Rightarrow> real option \<Rightarrow> trend_label" where
  "classify_trend start_s end_s =
     (if nan_less (nan_times start_s (11 / 10)) end_s then Uptrend
      else if nan_less end_s (nan_times start_s (9 / 10)) then Downtrend
      else Stable)"

text \<open>Lines 104 and 105.\<close>

definition avg_spread :: "forecast_row list \<Rightarrow> real option" where
  "avg_spread future_data = mean (map (\<lambda>row. yhat_upper row - yhat_lower row) future_data)"

definition confidence_score :: "int \<Rightarrow> forecast_row list \<Rightarrow> confidence_label" where
  "confidence_score current_qty future_data =
     (if nan_less (avg_spread future_data) (Some (real_of_int current_qty * (2 / 10)))
      then High else Low)"

text \<open>
  Lines 76 to 114 together: what \<^verbatim>\<open>generate_forecast\<close> computes from
  \<^verbatim>\<open>current_qty\<close> and \<^verbatim>\<open>future_data\<close> once the model has answered.
\<close>

definition analyze :: "int \<Rightarrow> forecast_row list \<Rightarrow> prediction" where
  "analyze current_qty future_data =
     \<lparr> stock_out_date = depletion_loop (real_of_int current_qty) future_data,
       predicted_monthly_demand = py_int (predicted_demand future_data),
       trend = classify_trend (start_sales future_data) (end_sales future_data),
       confidence = confidence_score current_qty future_data,
       forecast_data = tail_rows 30 future_data \<rparr>"

subsection \<open>Raw history and the normalizer (\_preprocess\_data)\<close>

text \<open>
  A cell of a date column as \<^verbatim>\<open>pd.to_datetime\<close> (default \<^verbatim>\<open>errors='raise'\<close>) sees
  it: a null value (converted to NaT), a value that cannot be parsed (the call raises), or
  a value parsed to a timestamp. A cell of a quantity column as
  \<^verbatim>\<open>pd.to_numeric(errors='coerce')\<close> sees it: a number, or anything else (null or
  non-numeric, coerced to NaN).
\<close>

datatype date_cell = Date_null | Date_unparseable | Timestamp int

datatype quantity_cell = Numeric real | Non_numeric

text \<open>
  One dictionary of \<^verbatim>\<open>history\<close>, restricted to the six keys that \<^verbatim>\<open>col_map\<close>
  sends to \<^verbatim>\<open>ds\<close> or \<^verbatim>\<open>y\<close> (or that already have these names). \<open>None\<close>
  is a key the dictionary does not have. Other keys are outside the model.
\<close>

record raw_observation =
  raw_date :: "date_cell option"
  raw_createdAt :: "date_cell option"
  raw_ds :: "date_cell option"
  raw_sales :: "quantity_cell option"
  raw_quantity_sold :: "quantity_cell option"
  raw_y :: "quantity_cell option"

datatype py_error = KeyError | ValueError | TypeError

text \<open>
  \<^verbatim>\<open>pd.DataFrame(history)\<close> has a column for every key that occurs in some
  dictionary; a dictionary without the key gets a null cell there.
\<close>

definition column_present :: "('r \<Rightarrow> 'c option) \<Rightarrow> 'r list \<Rightarrow> bool" where
  "column_present key history = list_ex (\<lambda>row. key row \<noteq> None) history"

text \<open>
  \<^verbatim>\<open>df[name]\<close> after the renaming, \<open>keys\<close> being the keys renamed to
  \<open>name\<close>: KeyError when no such column exists; when several columns carry the
  name, \<^verbatim>\<open>df[name]\<close> is a frame and the conversion applied to it raises (the
  error given as \<open>dup\<close>). A null cell and a missing key are both \<open>None\<close> in
  the result.
\<close>

definition select_column ::
  "py_error \<Rightarrow> ('r \<Rightarrow> 'c option) list \<Rightarrow> 'r list \<Rightarrow> py_error + 'c option list" where
  "select_column dup keys history =
     (case filter (\<lambda>key. column_present key history) keys of
        [] \<Rightarrow> Inl KeyError
      | [key] \<Rightarrow> Inr (map key history)
      | _ \<Rightarrow> Inl dup)"

text \<open>Line 32: \<^verbatim>\<open>pd.to_datetime(df['ds'])\<close>; \<open>None\<close> in the result is NaT.\<close>

definition to_datetime :: "date_cell option list \<Rightarrow> py_error + int option list" where
  "to_datetime col =
     (if Some Date_unparseable \<in> set col then Inl ValueError
      else Inr (map (\<lambda>c. case c of Some (Timestamp t) \<Rightarrow> Some t | _ \<Rightarrow> None) col))"

text \<open>Line 33: \<^verbatim>\<open>pd.to_numeric(df['y'], errors='coerce').fillna(0)\<close>.\<close>

definition to_numeric_fillna :: "quantity_cell option list \<Rightarrow> real list" where
  "to_numeric_fillna col = map (\<lambda>c. case c of Some (Numeric v) \<Rightarrow> v | _ \<Rightarrow> 0) col"

text \<open>
  Line 36: \<^verbatim>\<open>dropna(subset=['ds', 'y'])\<close>. After \<^verbatim>\<open>fillna(0)\<close> no quantity is
  null, so exactly the rows with a NaT date are dropped.
\<close>

definition dropna :: "(int option \<times> real) list \<Rightarrow> (int \<times> real) list" where
  "dropna rows = List.map_filter (\<lambda>(d, v). map_option (\<lambda>t. (t, v)) d) rows"

text \<open>Line 39: \<^verbatim>\<open>groupby('ds').sum()\<close>: one row per distinct timestamp, keys ascending.\<close>

definition groupby_sum :: "(int \<times> real) list \<Rightarrow> (int \<times> real) list" where
  "groupby_sum rows =
     map (\<lambda>k. (k, sum_list (map snd (filter (\<lambda>row. fst row = k) rows))))
         (sort (remdups (map fst rows)))"

definition day_of :: "int \<Rightarrow> int" where
  "day_of t = t div 86400"

text \<open>
  Line 43: \<^verbatim>\<open>resample('D').sum()\<close>: one bin per calendar day from the day of the
  smallest timestamp to the day of the largest, each holding the sum of its rows (0 for
  an empty bin); an empty frame stays empty.
\<close>

definition resample_D_sum :: "(int \<times> real) list \<Rightarrow> (int \<times> real) list" where
  "resample_D_sum df =
     (if df = [] then []
      else map (\<lambda>d. (d, sum_list (map snd (filter (\<lambda>row. day_of (fst row) = d) df))))
               [day_of (Min (set (map fst df))) .. day_of (Max (set (map fst df)))])"

text \<open>Lines 24 to 36: the frame of (timestamp, quantity) rows left after \<^verbatim>\<open>dropna\<close>.\<close>

definition clean_rows :: "raw_observation list \<Rightarrow> py_error + (int \<times> real) list" where
  "clean_rows history =
     (case select_column ValueError [raw_date, raw_createdAt, raw_ds] history of
        Inl e \<Rightarrow> Inl e
      | Inr ds_cells \<Rightarrow>
          (case to_datetime ds_cells of
             Inl e \<Rightarrow> Inl e
           | Inr ds_col \<Rightarrow>
               (case select_column TypeError [raw_sales, raw_quantity_sold, raw_y] history of
                  Inl e \<Rightarrow> Inl e
                | Inr y_cells \<Rightarrow> Inr (dropna (zip ds_col (to_numeric_fillna y_cells))))))"

text \<open>
  \<^verbatim>\<open>_preprocess_data\<close>: every exception of the body is caught and gives
  \<open>None\<close>, as a frame of fewer than 10 rows does. The result is the daily series,
  rows of (day, quantity).
\<close>

definition preprocess_data :: "raw_observation list \<Rightarrow> (int \<times> real) list option" where
  "preprocess_data history =
     (case clean_rows history of
        Inl e \<Rightarrow> None
      | Inr rows \<Rightarrow>
          (let df = resample_D_sum (groupby_sum rows)
           in if length df < 10 then None else Some df))"

subsection \<open>generate\_forecast\<close>

text \<open>
  The forecasting model (lines 64 to 69: \<^verbatim>\<open>Prophet(...)\<close>, \<^verbatim>\<open>fit\<close>,
  \<^verbatim>\<open>make_future_dataframe\<close>, \<^verbatim>\<open>predict\<close>) is an external library, taken as a
  parameter: from the daily series it either raises (\<open>Inl\<close> the message) or returns
  the forecast frame.
\<close>

type_synonym forecasting_model = "(int \<times> real) list \<Rightarrow> string + forecast_row list"

definition generate_forecast ::
  "forecasting_model \<Rightarrow> int \<Rightarrow> raw_observation list \<Rightarrow> forecast_result" where
  "generate_forecast model current_qty history =
     (case preprocess_data history of
        None \<Rightarrow> Insufficient_data
      | Some df \<Rightarrow>
          (case model df of
             Inl message \<Rightarrow> Error message
           | Inr forecast \<Rightarrow> Success (analyze current_qty (tail_rows 30 forecast))))"

section \<open>Store gateway: db\_connector.py\<close>

text \<open>
  A product as the aggregation pipeline projects it. \<open>pid\<close> is \<^verbatim>\<open>_id\<close>; a field
  the stored document lacks is \<open>None\<close>.
\<close>

record product =
  pid :: nat
  name :: "string option"
  quantity :: "int option"
  history :: "raw_observation list option"
  category :: "string option"

text \<open>A stored document: the projected fields and the written \<^verbatim>\<open>ai_forecast\<close>.\<close>

record document =
  doc_fields :: product
  ai_forecast :: "prediction option"

text \<open>
  The state of the store as one call sees it: a call on an unreachable store raises
  (with the given message).
\<close>

datatype database = Unreachable string | Products "document list"

text \<open>
  Lines 61 to 79: the pipeline \<^verbatim>\<open>$match\<close> (history exists and is not of size 0),
  \<^verbatim>\<open>$project\<close>, \<^verbatim>\<open>$limit\<close>.
\<close>

definition aggregate :: "database \<Rightarrow> nat \<Rightarrow> string + product list" where
  "aggregate db limit =
     (case db of
        Unreachable message \<Rightarrow> Inl message
      | Products docs \<Rightarrow>
          Inr (take limit
                 (filter (\<lambda>p. history p \<noteq> None \<and> history p \<noteq> Some [])
                         (map doc_fields docs))))"

definition fetch_training_batch :: "database \<Rightarrow> nat \<Rightarrow> product list" where
  "fetch_training_batch db limit =
     (case aggregate db limit of
        Inr products \<Rightarrow> products
      | Inl e \<Rightarrow> [])"

text \<open>
  \<^verbatim>\<open>UpdateOne({"_id": ...}, {"$set": {"ai_forecast": ...}})\<close>: the first document with
  that \<^verbatim>\<open>_id\<close> gets the prediction (\<^verbatim>\<open>last_analyzed\<close>, a clock reading, is not
  modelled).
\<close>

fun update_one :: "nat \<times> prediction \<Rightarrow> document list \<Rightarrow> document list" where
  "update_one item [] = []"
| "update_one item (doc # docs) =
     (if pid (doc_fields doc) = fst item then doc\<lparr>ai_forecast := Some (snd item)\<rparr> # docs
      else doc # update_one item docs)"

text \<open>
  \<^verbatim>\<open>bulk_update_predictions\<close>: nothing on an empty list; every exception of the write
  is caught and logged, which leaves an unreachable store as it is.
\<close>

definition bulk_update_predictions :: "database \<Rightarrow> (nat \<times> prediction) list \<Rightarrow> database" where
  "bulk_update_predictions db updates =
     (if updates = [] then db
      else case db of
             Unreachable message \<Rightarrow> db
           | Products docs \<Rightarrow> Products (fold update_one updates docs))"

section \<open>Batch orchestrator: app.py\<close>

record batch_stats =
  uptrend :: nat
  downtrend :: nat
  critical :: nat

text \<open>The responses of \<^verbatim>\<open>run_batch_prediction\<close>: the two with status 200, and the 500.\<close>

datatype response =
    No_products
  | Batch_report (processed: nat) (updated: nat) (insights: batch_stats)
  | Batch_failure string

text \<open>Lines 45 to 49: the prediction for one product.\<close>

definition predict_product :: "forecasting_model \<Rightarrow> product \<Rightarrow> forecast_result" where
  "predict_product model p =
     (let current_qty = (case quantity p of None \<Rightarrow> 0 | Some q \<Rightarrow> q);
          history = (case history p of None \<Rightarrow> [] | Some h \<Rightarrow> h)
      in generate_forecast model current_qty history)"

text \<open>Lines 59 to 61: the three counters.\<close>

definition update_stats :: "prediction \<Rightarrow> batch_stats \<Rightarrow> batch_stats" where
  "update_stats prediction stats =
     (let stats1 = (if trend prediction = Uptrend
                    then stats\<lparr>uptrend := uptrend stats + 1\<rparr> else stats);
          stats2 = (if trend prediction = Downtrend
                    then stats1\<lparr>downtrend := downtrend stats1 + 1\<rparr> else stats1)
      in if stock_out_date prediction \<noteq> None
         then stats2\<lparr>critical := critical stats2 + 1\<rparr> else stats2)"

text \<open>Lines 42 to 61: one iteration of the loop, on \<^verbatim>\<open>updates\<close> and \<^verbatim>\<open>stats\<close>.\<close>

definition loop_body ::
  "forecasting_model \<Rightarrow> product \<Rightarrow> (nat \<times> prediction) list \<times> batch_stats
     \<Rightarrow> (nat \<times> prediction) list \<times> batch_stats" where
  "loop_body model p acc =
     (case predict_product model p of
        Success prediction \<Rightarrow> (fst acc @ [(pid p, prediction)], update_stats prediction (snd acc))
      | _ \<Rightarrow> acc)"

definition product_loop ::
  "forecasting_model \<Rightarrow> product list \<Rightarrow> (nat \<times> prediction) list \<times> batch_stats" where
  "product_loop model products =
     fold (loop_body model) products ([], \<lparr>uptrend = 0, downtrend = 0, critical = 0\<rparr>)"

text \<open>
  \<^verbatim>\<open>run_batch_prediction\<close>, returning the response and the store after the run. No
  operation of the body raises in this model, so the handler that answers 500 is not
  reached.
\<close>

definition run_batch_prediction :: "forecasting_model \<Rightarrow> database \<Rightarrow> response \<times> database" where
  "run_batch_prediction model db =
     (let products = fetch_training_batch db 2000
      in if products = [] then (No_products, db)
         else let (updates, stats) = product_loop model products;
                  db' = (if updates \<noteq> [] then bulk_update_predictions db updates else db)
              in (Batch_report (length products) (length updates) stats, db'))"

section \<open>Notions of the specification and sample inputs\<close>



text \<open>A 30-day forecast starting on day \<open>d\<close> with the same estimate \<open>v\<close> every day.\<close>

definition flat_forecast :: "int \<Rightarrow> real \<Rightarrow> forecast_row list" where
  "flat_forecast d v =
     map (\<lambda>i. \<lparr>ds = d + int i, yhat = v, yhat_lower = v - 1, yhat_upper = v + 1\<rparr>) [0..<30]"





text \<open>
  Sample histories: a row with the keys \<^verbatim>\<open>date\<close> and \<^verbatim>\<open>sales\<close>, and a
  history of \<open>n\<close> consecutive days, one row a day, each of quantity \<open>v\<close>.
\<close>

definition observation :: "int \<Rightarrow> real \<Rightarrow> raw_observation" where
  "observation t v =
     \<lparr> raw_date = Some (Timestamp t), raw_createdAt = None, raw_ds = None,
       raw_sales = Some (Numeric v), raw_quantity_sold = None, raw_y = None \<rparr>"

definition daily_history :: "nat \<Rightarrow> real \<Rightarrow> raw_observation list" where
  "daily_history n v = map (\<lambda>i. observation (86400 * int i) v) [0..<n]"


definition sample_model :: forecasting_model where
  "sample_model df =
     (if sum_list (map snd df) = 0 then Inl ''fit failed''
      else Inr (map (\<lambda>(d, v). \<lparr>ds = d, yhat = v, yhat_lower = v, yhat_upper = v\<rparr>) df
                @ flat_forecast (fst (last df) + 1) (snd (last df))))"

text \<open>
  Notions for the batch report: the updates of the successfully analysed products, in
  batch order; whether a result is a success; the three counters of a list of updates;
  the sum of two sets of counters.
\<close>

definition successes :: "forecasting_model \<Rightarrow> product list \<Rightarrow> (nat \<times> prediction) list" where
  "successes model products =
     List.map_filter
       (\<lambda>p. case predict_product model p of Success pr \<Rightarrow> Some (pid p, pr) | _ \<Rightarrow> None)
       products"

definition is_success :: "forecast_result \<Rightarrow> bool" where
  "is_success r = (case r of Success pr \<Rightarrow> True | _ \<Rightarrow> False)"

definition count_stats :: "(nat \<times> prediction) list \<Rightarrow> batch_stats" where
  "count_stats updates =
     \<lparr> uptrend = length (filter (\<lambda>u. trend (snd u) = Uptrend) updates),
       downtrend = length (filter (\<lambda>u. trend (snd u) = Downtrend) updates),
       critical = length (filter (\<lambda>u. stock_out_date (snd u) \<noteq> None) updates) \<rparr>"

definition add_stats :: "batch_stats \<Rightarrow> batch_stats \<Rightarrow> batch_stats" where
  "add_stats a b = \<lparr> uptrend = uptrend a + uptrend b, downtrend = downtrend a + downtrend b,
                      critical = critical a + critical b \<rparr>"

text \<open>
  A sample batch: product 1 has five days of history (too few), product 2 an all-zero
  history (the sample model fails on it), product 3 ten days of sales.
\<close>

definition sample_product :: "nat \<Rightarrow> int \<Rightarrow> raw_observation list \<Rightarrow> product" where
  "sample_product i q h =
     \<lparr> pid = i, name = None, quantity = Some q, history = Some h, category = None \<rparr>"

definition sample_products :: "product list" where
  "sample_products =
     [sample_product 1 5 (daily_history 5 1),
      sample_product 2 5 (daily_history 10 0),
      sample_product 3 5 (daily_history 10 1)]"

definition sample_db :: database where
  "sample_db = Products (map (\<lambda>p. \<lparr> doc_fields = p, ai_forecast = None \<rparr>) sample_products)"

text \<open>
  Notions for the daily series: the rows left after cleaning (none when cleaning
  raises), the calendar days they fall on, the total quantity observed on a day, and the
  number of days from the first to the last observed day.
\<close>

definition cleaned :: "raw_observation list \<Rightarrow> (int \<times> real) list" where
  "cleaned h = (case clean_rows h of Inr rows \<Rightarrow> rows | Inl e \<Rightarrow> [])"

definition observed_days :: "(int \<times> real) list \<Rightarrow> int set" where
  "observed_days rows = set (map (\<lambda>row. day_of (fst row)) rows)"

definition day_total :: "(int \<times> real) list \<Rightarrow> int \<Rightarrow> real" where
  "day_total rows d = sum_list (map snd (filter (\<lambda>row. day_of (fst row) = d) rows))"

definition span_days :: "(int \<times> real) list \<Rightarrow> nat" where
  "span_days rows =
     (if rows = [] then 0 else nat (Max (observed_days rows) - Min (observed_days rows) + 1))"

text \<open>
  Sample histories: ten daily rows, a second row on day 0 and a row on day 12 (given
  first, so the rows are out of order); a row whose date cannot be parsed; a row whose
  quantity is not a number.
\<close>

definition gap_history :: "raw_observation list" where
  "gap_history = observation (86400 * 12) 5 # observation 100 2 # daily_history 10 1"

definition gap_series :: "(int \<times> real) list" where
  "gap_series = [(0, 3), (1, 1), (2, 1), (3, 1), (4, 1), (5, 1), (6, 1), (7, 1), (8, 1), (9, 1),
                 (10, 0), (11, 0), (12, 5)]"

definition bad_date_row :: raw_observation where
  "bad_date_row =
     \<lparr> raw_date = Some Date_unparseable, raw_createdAt = None, raw_ds = None,
       raw_sales = Some (Numeric 3), raw_quantity_sold = None, raw_y = None \<rparr>"

definition bad_quantity_row :: "int \<Rightarrow> raw_observation" where
  "bad_quantity_row t =
     \<lparr> raw_date = Some (Timestamp t), raw_createdAt = None, raw_ds = None,
       raw_sales = Some Non_numeric, raw_quantity_sold = None, raw_y = None \<rparr>"

section \<open>Depletion simulation\<close>






lemma length_flat_forecast: "length (flat_forecast d v) = 30"
  by (simp add: flat_forecast_def)




section \<open>Monthly demand and the all-zero forecast\<close>


lemma depletion_loop_zero:
  "\<forall>row\<in>set fd. yhat row = 0 \<Longrightarrow>
   depletion_loop s fd = (if s \<le> 0 \<and> fd \<noteq> [] then Some (ds (fd ! 0)) else None)"
  by (induction fd arbitrary: s) (auto simp: Let_def)

lemma predicted_demand_zero:
  "\<forall>row\<in>set fd. yhat row = 0 \<Longrightarrow> predicted_demand fd = 0"
  by (induction fd) (auto simp: predicted_demand_def)

lemma set_flat_forecast:
  "row \<in> set (flat_forecast d v) \<Longrightarrow> yhat row = v"
  by (auto simp: flat_forecast_def)

text \<open>
  C5 (amended). On a 30-point forecast whose estimates are all 0 the monthly demand is 0;
  \<open>stock_out_date\<close> is \<open>None\<close> when \<open>current_qty\<close> is positive, and is the
  first forecast day when \<open>current_qty \<le> 0\<close>: the test \<^verbatim>\<open>running_stock <= 0\<close>
  already holds on day 1.
\<close>

theorem zero_forecast:
  assumes len: "length future_data = 30"
    and zero: "\<forall>row\<in>set future_data. yhat row = 0"
  shows "predicted_monthly_demand (analyze current_qty future_data) = 0
       \<and> (0 < current_qty \<longrightarrow> stock_out_date (analyze current_qty future_data) = None)
       \<and> (current_qty \<le> 0 \<longrightarrow>
            stock_out_date (analyze current_qty future_data) = Some (ds (future_data ! 0)))"
proof -
  from len have ne: "future_data \<noteq> []" by auto
  show ?thesis
    using ne by (simp add: analyze_def depletion_loop_zero [OF zero] predicted_demand_zero [OF zero] py_int_def)
qed

theorem zero_forecast_witness:
  "length (flat_forecast 100 0) = 30
   \<and> map yhat (flat_forecast 100 0) = replicate 30 0
   \<and> predicted_monthly_demand (analyze 7 (flat_forecast 100 0)) = 0
   \<and> stock_out_date (analyze 7 (flat_forecast 100 0)) = None"
proof -
  let ?fd = "flat_forecast 100 0"
  have len: "length ?fd = 30" by (rule length_flat_forecast)
  have zero: "\<forall>row\<in>set ?fd. yhat row = 0" by (auto dest: set_flat_forecast)
  have m: "map yhat ?fd = replicate 30 0"
    by (simp add: flat_forecast_def o_def map_replicate_const)
  from zero_forecast [OF len zero, of 7] len m show ?thesis by simp
qed

text \<open>The claim as stated fails with no stock at all: day 1 is reported.\<close>

theorem zero_forecast_counterexample:
  "length (flat_forecast 100 0) = 30
   \<and> map yhat (flat_forecast 100 0) = replicate 30 0
   \<and> stock_out_date (analyze 0 (flat_forecast 100 0)) = Some 100
   \<and> stock_out_date (analyze 0 (flat_forecast 100 0)) \<noteq> None"
  by code_simp




section \<open>Trend classification\<close>







section \<open>The forecast window\<close>




section \<open>The batch report\<close>

lemma successes_Nil: "successes model [] = []"
  by (simp add: successes_def map_filter_simps)

lemma successes_Cons:
  "successes model (p # ps) =
     (case predict_product model p of
        Success pr \<Rightarrow> (pid p, pr) # successes model ps
      | _ \<Rightarrow> successes model ps)"
  by (simp add: successes_def map_filter_simps split: forecast_result.split)

lemma update_stats_add:
  "update_stats pr st = add_stats st (count_stats [(i, pr)])"
  by (simp add: update_stats_def add_stats_def count_stats_def Let_def)

lemma add_stats_Nil: "add_stats st (count_stats []) = st"
  by (simp add: add_stats_def count_stats_def)

lemma loop_body_step:
  "loop_body model p (us, st) =
     (us @ successes model [p], add_stats st (count_stats (successes model [p])))"
  by (cases "predict_product model p")
     (simp_all add: loop_body_def successes_Cons successes_Nil add_stats_Nil
        update_stats_add [of _ _ "pid p"])

lemma successes_append_one:
  "successes model (p # ps) = successes model [p] @ successes model ps"
  by (cases "predict_product model p") (simp_all add: successes_Cons successes_Nil)

lemma count_stats_append:
  "add_stats (add_stats st (count_stats us)) (count_stats vs) = add_stats st (count_stats (us @ vs))"
  by (simp add: add_stats_def count_stats_def)

lemma fold_loop_body:
  "fold (loop_body model) ps (us, st)
     = (us @ successes model ps, add_stats st (count_stats (successes model ps)))"
proof (induction ps arbitrary: us st)
  case Nil
  show ?case by (simp add: successes_Nil add_stats_Nil)
next
  case (Cons p ps)
  have "fold (loop_body model) (p # ps) (us, st)
      = fold (loop_body model) ps
          (us @ successes model [p], add_stats st (count_stats (successes model [p])))"
    by (simp add: loop_body_step)
  also have "\<dots> = ((us @ successes model [p]) @ successes model ps,
      add_stats (add_stats st (count_stats (successes model [p])))
        (count_stats (successes model ps)))"
    by (rule Cons.IH)
  also have "\<dots> = (us @ successes model (p # ps),
      add_stats st (count_stats (successes model (p # ps))))"
    by (simp add: count_stats_append successes_append_one [of model p ps])
  finally show ?case .
qed

lemma product_loop_eq:
  "product_loop model ps = (successes model ps, count_stats (successes model ps))"
  by (simp add: product_loop_def fold_loop_body add_stats_def count_stats_def)

lemma length_successes:
  "length (successes model ps) = length (filter (\<lambda>p. is_success (predict_product model p)) ps)"
  by (induction ps) (auto simp: successes_Nil successes_Cons is_success_def split: forecast_result.split)

text \<open>
  C2. For a non-empty fetched batch the run answers the report, whatever the products'
  results: \<open>processed\<close> is the number of fetched products, \<open>updated\<close> the number
  of products whose result is a success, the update list holds exactly the successful
  predictions, and the counters are those of the update list, \<open>critical\<close> counting
  the predictions with a \<open>stock_out_date\<close>.
\<close>

theorem batch_report:
  assumes fetched: "fetch_training_batch db 2000 = products" and ne: "products \<noteq> []"
  shows "fst (run_batch_prediction model db)
           = Batch_report (length products)
               (length (filter (\<lambda>p. is_success (predict_product model p)) products))
               (count_stats (successes model products))
       \<and> fst (product_loop model products) = successes model products"
  using ne
  by (simp add: run_batch_prediction_def fetched product_loop_eq length_successes Let_def)

theorem batch_report_witness:
  "fetch_training_batch sample_db 2000 = sample_products
   \<and> sample_products \<noteq> []
   \<and> predict_product sample_model (sample_products ! 0) = Insufficient_data
   \<and> predict_product sample_model (sample_products ! 1) = Error ''fit failed''
   \<and> is_success (predict_product sample_model (sample_products ! 2))
   \<and> fst (run_batch_prediction sample_model sample_db)
       = Batch_report 3 1 \<lparr>uptrend = 0, downtrend = 0, critical = 1\<rparr>"
proof -
  have fetched: "fetch_training_batch sample_db 2000 = sample_products" by code_simp
  have ne: "sample_products \<noteq> []" by (simp add: sample_products_def)
  have a: "predict_product sample_model (sample_products ! 0) = Insufficient_data" by code_simp
  have b: "predict_product sample_model (sample_products ! 1) = Error ''fit failed''" by code_simp
  have c: "is_success (predict_product sample_model (sample_products ! 2))" by code_simp
  have n: "length sample_products = 3" by (simp add: sample_products_def)
  have u: "length (filter (\<lambda>p. is_success (predict_product sample_model p)) sample_products) = 1"
    by code_simp
  have st: "count_stats (successes sample_model sample_products)
      = \<lparr>uptrend = 0, downtrend = 0, critical = 1\<rparr>"
    by code_simp
  from batch_report [OF fetched ne, of sample_model] n u st
  have "fst (run_batch_prediction sample_model sample_db)
       = Batch_report 3 1 \<lparr>uptrend = 0, downtrend = 0, critical = 1\<rparr>" by simp
  with fetched ne a b c show ?thesis by simp
qed

section \<open>A failing fetch\<close>

text \<open>
  C10. When the aggregation raises, \<open>fetch_training_batch\<close> returns the empty list,
  and the batch run then answers the no-products response (status 200) and leaves the
  store as it is.
\<close>

theorem fetch_failure_no_data:
  "(\<forall>limit e. aggregate db limit = Inl e \<longrightarrow> fetch_training_batch db limit = [])
   \<and> (\<forall>e. aggregate db 2000 = Inl e \<longrightarrow>
         run_batch_prediction model db = (No_products, db))"
  by (simp add: fetch_training_batch_def run_batch_prediction_def)

theorem fetch_failure_no_data_witness:
  "aggregate (Unreachable ''timed out'') 2000 = Inl ''timed out''
   \<and> fetch_training_batch (Unreachable ''timed out'') 2000 = []
   \<and> run_batch_prediction sample_model (Unreachable ''timed out'')
       = (No_products, Unreachable ''timed out'')"
proof -
  have a: "aggregate (Unreachable ''timed out'') 2000 = Inl ''timed out''"
    by (simp add: aggregate_def)
  from fetch_failure_no_data [of "Unreachable ''timed out''" sample_model] a
  show ?thesis by blast
qed

section \<open>Order of processing\<close>








section \<open>The daily series\<close>

lemma sum_list_delta:
  "distinct xs \<Longrightarrow>
   sum_list (map (\<lambda>k. if a = k then v else 0) xs) = (if a \<in> set xs then v else (0::real))"
  by (induction xs) auto

lemma regroup:
  fixes rows :: "('k \<times> real) list"
  assumes d: "distinct ks" and sub: "fst ` set rows \<subseteq> set ks"
  shows "sum_list (map (\<lambda>k. sum_list (map snd (filter (\<lambda>r. fst r = k) rows))) (filter P ks))
       = sum_list (map snd (filter (\<lambda>r. P (fst r)) rows))"
  using sub
proof (induction rows)
  case Nil
  show ?case by simp
next
  case (Cons r rs)
  have split: "sum_list (map snd (filter (\<lambda>x. fst x = k) (r # rs)))
      = (if fst r = k then snd r else 0) + sum_list (map snd (filter (\<lambda>x. fst x = k) rs))" for k
    by simp
  have mem: "fst r \<in> set (filter P ks) \<longleftrightarrow> P (fst r)"
    using Cons.prems by auto
  have "sum_list (map (\<lambda>k. if fst r = k then snd r else 0) (filter P ks))
      = (if P (fst r) then snd r else 0)"
    using sum_list_delta [of "filter P ks" "fst r" "snd r"] d mem by simp
  moreover have "sum_list (map (\<lambda>k. sum_list (map snd (filter (\<lambda>x. fst x = k) rs))) (filter P ks))
      = sum_list (map snd (filter (\<lambda>x. P (fst x)) rs))"
    using Cons by simp
  ultimately show ?case
    unfolding split by (simp add: sum_list_addf)
qed

lemma keys_groupby_sum: "fst ` set (groupby_sum rows) = fst ` set rows"
  by (force simp: groupby_sum_def)

lemma groupby_sum_Nil: "groupby_sum rows = [] \<longleftrightarrow> rows = []"
  by (cases rows) (auto simp: groupby_sum_def simp flip: set_empty)

lemma day_total_groupby_sum: "day_total (groupby_sum rows) d = day_total rows d"
proof -
  let ?ks = "sort (remdups (map fst rows))"
  have "day_total (groupby_sum rows) d
      = sum_list (map (\<lambda>k. sum_list (map snd (filter (\<lambda>r. fst r = k) rows)))
          (filter (\<lambda>k. day_of k = d) ?ks))"
    by (simp add: day_total_def groupby_sum_def filter_map o_def)
  also have "\<dots> = sum_list (map snd (filter (\<lambda>r. day_of (fst r) = d) rows))"
    by (rule regroup) auto
  finally show ?thesis by (simp add: day_total_def)
qed

lemma mono_day_of: "mono day_of"
  by (simp add: mono_def day_of_def zdiv_mono1)

lemma observed_days_image: "observed_days rows = day_of ` fst ` set rows"
  by (auto simp: observed_days_def)

lemma day_of_Min:
  "rows \<noteq> [] \<Longrightarrow> day_of (Min (fst ` set rows)) = Min (observed_days rows)"
  unfolding observed_days_image
  by (rule mono_Min_commute [OF mono_day_of]) auto

lemma day_of_Max:
  "rows \<noteq> [] \<Longrightarrow> day_of (Max (fst ` set rows)) = Max (observed_days rows)"
  unfolding observed_days_image
  by (rule mono_Max_commute [OF mono_day_of]) auto

lemma resample_groupby:
  "resample_D_sum (groupby_sum rows) =
     (if rows = [] then []
      else map (\<lambda>d. (d, day_total rows d)) [Min (observed_days rows) .. Max (observed_days rows)])"
proof (cases "rows = []")
  case True
  then show ?thesis by (simp add: resample_D_sum_def groupby_sum_def)
next
  case False
  have k: "set (map fst (groupby_sum rows)) = fst ` set rows"
    using keys_groupby_sum [of rows] by simp
  have "resample_D_sum (groupby_sum rows)
      = map (\<lambda>d. (d, day_total (groupby_sum rows) d))
          [day_of (Min (fst ` set rows)) .. day_of (Max (fst ` set rows))]"
    using False unfolding resample_D_sum_def k by (simp add: groupby_sum_Nil day_total_def)
  then show ?thesis
    using False by (simp add: day_total_groupby_sum day_of_Min day_of_Max)
qed

lemma length_resample_groupby:
  "length (resample_D_sum (groupby_sum rows)) = span_days rows"
  by (simp add: resample_groupby span_days_def)

lemma day_total_unobserved: "d \<notin> observed_days rows \<Longrightarrow> day_total rows d = 0"
proof -
  assume "d \<notin> observed_days rows"
  then have "filter (\<lambda>row. day_of (fst row) = d) rows = []"
    by (auto simp: observed_days_def filter_empty_conv)
  then show ?thesis by (simp add: day_total_def)
qed

lemma preprocess_data_eq:
  "preprocess_data h =
     (if span_days (cleaned h) < 10 then None
      else Some (map (\<lambda>d. (d, day_total (cleaned h) d))
                   [Min (observed_days (cleaned h)) .. Max (observed_days (cleaned h))]))"
proof (cases "clean_rows h")
  case (Inl e)
  then show ?thesis by (simp add: preprocess_data_def cleaned_def span_days_def)
next
  case (Inr rows)
  then have c: "cleaned h = rows" by (simp add: cleaned_def)
  show ?thesis
  proof (cases "rows = []")
    case True
    with Inr c show ?thesis
      by (simp add: preprocess_data_def resample_groupby span_days_def)
  next
    case False
    with Inr c show ?thesis
      using length_resample_groupby [of rows]
      by (simp add: preprocess_data_def Let_def resample_groupby)
  qed
qed

text \<open>
  C3. Every series the normalizer returns has one entry for each calendar day from the
  first to the last observed day, in ascending order and without gaps; the quantity of
  a day is the sum of the quantities of all rows of that day, which is 0 for a day
  without rows; and it has at least 10 entries. When the observed days span fewer than
  10 days (or nothing is left after cleaning), the normalizer returns \<open>None\<close>.
\<close>

theorem daily_series_invariant:
  "(\<forall>df. preprocess_data h = Some df \<longrightarrow>
       clean_rows h = Inr (cleaned h) \<and> cleaned h \<noteq> []
     \<and> map fst df = [Min (observed_days (cleaned h)) .. Max (observed_days (cleaned h))]
     \<and> sorted (map fst df) \<and> distinct (map fst df)
     \<and> (\<forall>i. Suc i < length df \<longrightarrow> fst (df ! Suc i) = fst (df ! i) + 1)
     \<and> map snd df = map (day_total (cleaned h)) (map fst df)
     \<and> (\<forall>i<length df. fst (df ! i) \<notin> observed_days (cleaned h) \<longrightarrow> snd (df ! i) = 0)
     \<and> length df = span_days (cleaned h) \<and> 10 \<le> length df)
   \<and> (span_days (cleaned h) < 10 \<longrightarrow> preprocess_data h = None)"
proof (intro conjI allI impI)
  show "preprocess_data h = None" if "span_days (cleaned h) < 10"
    using that by (simp add: preprocess_data_eq)
next
  fix df
  assume a: "preprocess_data h = Some df"
  let ?rows = "cleaned h"
  let ?lo = "Min (observed_days ?rows)" and ?hi = "Max (observed_days ?rows)"
  from a have span: "\<not> span_days ?rows < 10"
    and df: "df = map (\<lambda>d. (d, day_total ?rows d)) [?lo .. ?hi]"
    by (auto simp: preprocess_data_eq split: if_splits)
  from span have ne: "?rows \<noteq> []" by (auto simp: span_days_def)
  show "cleaned h \<noteq> []" by (rule ne)
  show "clean_rows h = Inr (cleaned h)"
    using ne by (cases "clean_rows h") (simp_all add: cleaned_def)
  show fst_df: "map fst df = [?lo .. ?hi]" by (simp add: df o_def)
  show "sorted (map fst df)" unfolding fst_df by simp
  show "distinct (map fst df)" unfolding fst_df by simp
  show len: "length df = span_days ?rows"
    using ne by (simp add: df span_days_def)
  show "10 \<le> length df" using span len by simp
  show "map snd df = map (day_total ?rows) (map fst df)" by (simp add: df o_def)
  show "fst (df ! Suc i) = fst (df ! i) + 1" if "Suc i < length df" for i
  proof -
    from that have "Suc i < length [?lo .. ?hi]" "i < length [?lo .. ?hi]" by (simp_all add: df)
    then have "[?lo .. ?hi] ! Suc i = ?lo + int (Suc i)" "[?lo .. ?hi] ! i = ?lo + int i"
      by (simp_all add: nth_upto)
    moreover have "fst (df ! Suc i) = [?lo .. ?hi] ! Suc i" "fst (df ! i) = [?lo .. ?hi] ! i"
      using that by (simp_all add: df)
    ultimately show ?thesis by simp
  qed
  show "snd (df ! i) = 0" if "i < length df" "fst (df ! i) \<notin> observed_days ?rows" for i
  proof -
    from that(1) have "df ! i = ([?lo .. ?hi] ! i, day_total ?rows ([?lo .. ?hi] ! i))"
      by (simp add: df)
    with that(2) show ?thesis by (simp add: day_total_unobserved)
  qed
qed

theorem daily_series_invariant_witness:
  "preprocess_data gap_history = Some gap_series
   \<and> map fst gap_series = [0 .. 12]
   \<and> Min (observed_days (cleaned gap_history)) = 0
   \<and> Max (observed_days (cleaned gap_history)) = 12
   \<and> sorted (map fst gap_series) \<and> distinct (map fst gap_series)
   \<and> map snd gap_series = map (day_total (cleaned gap_history)) (map fst gap_series)
   \<and> length gap_series = 13 \<and> 10 \<le> length gap_series
   \<and> span_days (cleaned (daily_history 9 1)) = 9
   \<and> preprocess_data (daily_history 9 1) = None"
proof -
  have pre: "preprocess_data gap_history = Some gap_series" by code_simp
  have lo: "Min (observed_days (cleaned gap_history)) = 0" by code_simp
  have hi: "Max (observed_days (cleaned gap_history)) = 12" by code_simp
  have sp: "span_days (cleaned (daily_history 9 1)) = 9" by code_simp
  have len: "length gap_series = 13" by (simp add: gap_series_def)
  from daily_series_invariant [of gap_history] pre
  have a: "map fst gap_series
        = [Min (observed_days (cleaned gap_history)) .. Max (observed_days (cleaned gap_history))]"
    and b: "sorted (map fst gap_series)" and c: "distinct (map fst gap_series)"
    and d: "map snd gap_series = map (day_total (cleaned gap_history)) (map fst gap_series)"
    and e: "10 \<le> length gap_series"
    by blast+
  from daily_series_invariant [of "daily_history 9 1"] sp
  have f: "preprocess_data (daily_history 9 1) = None" by simp
  from a lo hi have a': "map fst gap_series = [0 .. 12]" by simp
  show ?thesis by (intro conjI pre a' lo hi b c d len e sp f)
qed

section \<open>Rows with a malformed date or quantity\<close>

lemma select_column_unparseable:
  assumes "row \<in> set h" and "key \<in> set keys" and "key row = Some Date_unparseable"
    and "select_column dup keys h = Inr col"
  shows "Some Date_unparseable \<in> set col"
proof -
  from assms(1,3) have p: "column_present key h"
    by (auto simp: column_present_def list_ex_iff)
  with assms(2) have "key \<in> set (filter (\<lambda>key. column_present key h) keys)" by simp
  moreover from assms(4) obtain k where "filter (\<lambda>key. column_present key h) keys = [k]"
    and "col = map k h"
    by (auto simp: select_column_def split: list.splits)
  ultimately show ?thesis using assms(1,3) by force
qed

text \<open>
  C8. A row whose date cannot be parsed is not dropped: \<^verbatim>\<open>pd.to_datetime\<close> is
  called without \<^verbatim>\<open>errors='coerce'\<close>, raises, and the handler rejects the whole
  history, although \<^verbatim>\<open>dropna\<close> (``Drop invalid rows'') follows and the quantity
  column is coerced. The theorem states the rejection; its instance below has twelve
  good rows and one bad date, and shows beside it that a malformed quantity keeps its
  day, with quantity 0.
\<close>

theorem unparseable_date_rejects_history:
  assumes "row \<in> set h"
    and "raw_date row = Some Date_unparseable \<or> raw_createdAt row = Some Date_unparseable
         \<or> raw_ds row = Some Date_unparseable"
  shows "preprocess_data h = None"
proof -
  from assms(2) obtain key where k: "key \<in> set [raw_date, raw_createdAt, raw_ds]"
    and u: "key row = Some Date_unparseable" by auto
  have "\<exists>e. clean_rows h = Inl e"
  proof (cases "select_column ValueError [raw_date, raw_createdAt, raw_ds] h")
    case (Inl e)
    then show ?thesis by (simp add: clean_rows_def)
  next
    case (Inr col)
    from select_column_unparseable [OF assms(1) k u Inr]
    have "to_datetime col = Inl ValueError" by (simp add: to_datetime_def)
    with Inr show ?thesis by (simp add: clean_rows_def)
  qed
  then show ?thesis by (auto simp: preprocess_data_def)
qed

theorem unparseable_date_rejects_history_witness:
  "bad_date_row \<in> set (daily_history 12 3 @ [bad_date_row])
   \<and> raw_date bad_date_row = Some Date_unparseable
   \<and> preprocess_data (daily_history 12 3) = Some (map (\<lambda>i. (int i, 3)) [0..<12])
   \<and> preprocess_data (daily_history 12 3 @ [bad_date_row]) = None
   \<and> preprocess_data (bad_quantity_row (86400 * 10) # daily_history 10 3)
       = Some (map (\<lambda>i. (int i, 3)) [0..<10] @ [(10, 0)])"
proof -
  have m: "bad_date_row \<in> set (daily_history 12 3 @ [bad_date_row])" by simp
  have u: "raw_date bad_date_row = Some Date_unparseable" by (simp add: bad_date_row_def)
  have a: "preprocess_data (daily_history 12 3) = Some (map (\<lambda>i. (int i, 3)) [0..<12])"
    by code_simp
  have b: "preprocess_data (bad_quantity_row (86400 * 10) # daily_history 10 3)
       = Some (map (\<lambda>i. (int i, 3)) [0..<10] @ [(10, 0)])"
    by code_simp
  from unparseable_date_rejects_history [OF m] u
  have c: "preprocess_data (daily_history 12 3 @ [bad_date_row]) = None" by simp
  show ?thesis by (intro conjI m u a c b)
qed

end
